theory Spec2Isabelle
  imports Complex_Main "HOL-Library.Product_Lexorder"
begin

section \<open>Topic assignment cell of TopicModelling.ipynb\<close>

text \<open>
  The notebook assigns a topic to every document with
  \<^verbatim>\<open>wos_df['topic'] = [sorted(lda_model[corpus][text])[0][0] for text in range(len(wos_df['AB']))]\<close>.
  The value of \<^verbatim>\<open>lda_model[corpus][text]\<close> is the library's sparse form of the
  document's row of the document-topic matrix: a list of (topic id, probability) pairs. It is
  an input of the model below. Python compares tuples lexicographically, which is the order
  of pairs imported here, and \<^verbatim>\<open>xs[0]\<close> raises IndexError on an empty list.
\<close>

datatype py_error = IndexError

type_synonym topic_row = "(nat \<times> real) list"

definition sorted_py :: "('a::linorder) list \<Rightarrow> 'a list" where
  "sorted_py xs = sort xs"

definition getitem :: "'a list \<Rightarrow> nat \<Rightarrow> py_error + 'a" where
  "getitem xs i = (if i < length xs then Inr (xs ! i) else Inl IndexError)"

text \<open>The expression \<^verbatim>\<open>sorted(row)[0][0]\<close>.\<close>

definition assigned_topic :: "topic_row \<Rightarrow> py_error + nat" where
  "assigned_topic row =
     (case getitem (sorted_py row) 0 of
        Inl e \<Rightarrow> Inl e
      | Inr p \<Rightarrow> Inr (fst p))"

text \<open>
  The list comprehension: \<^verbatim>\<open>rows\<close> stands for \<^verbatim>\<open>lda_model[corpus]\<close>, indexed by
  every \<^verbatim>\<open>text\<close> of the range; the first exception ends the comprehension.
\<close>

fun topic_column :: "topic_row list \<Rightarrow> nat list \<Rightarrow> py_error + nat list" where
  "topic_column rows [] = Inr []"
| "topic_column rows (text # rest) =
     (case getitem rows text of
        Inl e \<Rightarrow> Inl e
      | Inr row \<Rightarrow>
          (case assigned_topic row of
             Inl e \<Rightarrow> Inl e
           | Inr t \<Rightarrow>
               (case topic_column rows rest of
                  Inl e \<Rightarrow> Inl e
                | Inr ts \<Rightarrow> Inr (t # ts))))"

definition assign_topics :: "topic_row list \<Rightarrow> nat \<Rightarrow> py_error + nat list" where
  "assign_topics rows n_AB = topic_column rows [0..<n_AB]"

text \<open>
  The specification's dominant topic, written from its words: the argmax over the row, ties
  broken by the lowest topic id. The result pairs the topic with its probability; a row
  without entries has none.
\<close>

fun spec_dominant_topic :: "topic_row \<Rightarrow> (nat \<times> real) option" where
  "spec_dominant_topic [] = None"
| "spec_dominant_topic ((t, p) # rest) =
     (case spec_dominant_topic rest of
        None \<Rightarrow> Some (t, p)
      | Some (t', p') \<Rightarrow>
          if p' > p \<or> (p' = p \<and> t' < t) then Some (t', p') else Some (t, p))"

section \<open>Loading cells: the data frame handed to the pipeline\<close>

text \<open>
  A row of the Web of Science frame with the columns the notebook reads: the abstract
  \<^verbatim>\<open>AB\<close> (missing when null), the \<^verbatim>\<open>review\<close> flag, the title \<^verbatim>\<open>TI\<close> and the
  DOI \<^verbatim>\<open>DI\<close>. The frame stored in the pickle file has the column \<^verbatim>\<open>tokens\<close> too.
\<close>

record wos_item =
  AB :: "string option"
  review :: bool
  TI :: string
  DI :: "string option"

record wos_tokenised = wos_item +
  tokens :: "string list"

text \<open>
  Step 1:
  \<^verbatim>\<open>wos_df = pd.read_json('../shared/wos.json')\<close>,
  \<^verbatim>\<open>wos_df = wos_df[~wos_df['AB'].isna()]\<close>,
  \<^verbatim>\<open>wos_df = wos_df[~wos_df['review']]\<close>.
  The argument is the frame read from the JSON file.
\<close>

definition step1_prepare :: "wos_item list \<Rightarrow> wos_item list" where
  "step1_prepare wos_json =
     (let wos_df = wos_json;
          wos_df = filter (\<lambda>r. \<not> (AB r = None)) wos_df;
          wos_df = filter (\<lambda>r. \<not> review r) wos_df
      in wos_df)"

text \<open>
  Step 2: \<^verbatim>\<open>wos_df = pd.read_pickle('../shared/wos.pkl')\<close>. The assignment replaces the
  value that step 1 left in \<^verbatim>\<open>wos_df\<close> by the frame read from the pickle file.
\<close>

definition step2_preprocess :: "wos_item list \<Rightarrow> wos_tokenised list \<Rightarrow> wos_tokenised list" where
  "step2_preprocess wos_df wos_pkl = wos_pkl"

text \<open>
  The frame that reaches step 3 when the cells run in order, and the documents
  \<^verbatim>\<open>wos_df['tokens']\<close> that step 3 hands to \<^verbatim>\<open>Dictionary\<close> and to \<^verbatim>\<open>doc2bow\<close>.
\<close>

definition frame_at_step3 :: "wos_item list \<Rightarrow> wos_tokenised list \<Rightarrow> wos_tokenised list" where
  "frame_at_step3 wos_json wos_pkl = step2_preprocess (step1_prepare wos_json) wos_pkl"


section \<open>Dictionary and corpus cell\<close>

text \<open>
  Step 3 of the notebook:
  \<^verbatim>\<open>dictionary = Dictionary(wos_df['tokens'])\<close>,
  \<^verbatim>\<open>dictionary.filter_extremes(no_below=5, no_above=0.5, keep_n=1000)\<close>,
  \<^verbatim>\<open>corpus = [dictionary.doc2bow(doc) for doc in wos_df['tokens']]\<close>.
  The dictionary class, its construction, its pruning and its encoder are the library's; the
  notebook's own code is the list comprehension.
\<close>

text \<open>
  Modelled from the spec: the vocabulary, which the notebook holds as an object of the
  library's dictionary class. The specification's data model makes it a bidirectional
  mapping between tokens and dense ids, contiguous from 0, a token appearing at most once:
  here the list of its tokens, the id of a token being its (first) position.
\<close>

type_synonym vocabulary = "string list"

fun token2id :: "vocabulary \<Rightarrow> string \<Rightarrow> nat option" where
  "token2id [] t = None"
| "token2id (v # vs) t = (if v = t then Some 0 else map_option Suc (token2id vs t))"

text \<open>
  Modelled from the spec: \<^verbatim>\<open>doc2bow\<close> is a method of the library's dictionary and its
  code is not part of the notebook. The specification's encoder counts, for each document,
  the occurrences of each token of the vocabulary, drops the tokens absent from it, and
  returns (token id, count) pairs with unique ids and counts of at least 1. The pairs are
  kept in the order in which their tokens first occur, the specification fixing none.
\<close>

fun bow_add :: "nat \<Rightarrow> (nat \<times> nat) list \<Rightarrow> (nat \<times> nat) list" where
  "bow_add i [] = [(i, 1)]"
| "bow_add i ((j, c) # rest) =
     (if i = j then (j, Suc c) # rest else (j, c) # bow_add i rest)"

fun count_tokens :: "vocabulary \<Rightarrow> (nat \<times> nat) list \<Rightarrow> string list \<Rightarrow> (nat \<times> nat) list" where
  "count_tokens V bow [] = bow"
| "count_tokens V bow (t # ts) =
     (case token2id V t of
        None \<Rightarrow> count_tokens V bow ts
      | Some i \<Rightarrow> count_tokens V (bow_add i bow) ts)"

definition doc2bow :: "vocabulary \<Rightarrow> string list \<Rightarrow> (nat \<times> nat) list" where
  "doc2bow V doc = count_tokens V [] doc"

text \<open>The list comprehension of the cell, over the documents \<^verbatim>\<open>wos_df['tokens']\<close>.\<close>

definition corpus_of :: "vocabulary \<Rightarrow> string list list \<Rightarrow> (nat \<times> nat) list list" where
  "corpus_of dictionary docs = map (\<lambda>doc. doc2bow dictionary doc) docs"

text \<open>The count a sparse vector stores for an id, 0 when the id has no pair.\<close>

definition bow_count :: "(nat \<times> nat) list \<Rightarrow> nat \<Rightarrow> nat" where
  "bow_count bow i = (case map_of bow i of None \<Rightarrow> 0 | Some c \<Rightarrow> c)"

section \<open>Properties of the topic assignment\<close>

lemma sorted_head_is_Min:
  fixes x :: "'a::linorder"
  assumes "sorted (x # xs)"
  shows "x = Min (set (x # xs))"
proof -
  have "\<forall>y \<in> set (x # xs). x \<le> y" using assms by auto
  then have "Min (set (x # xs)) = x"
    by (intro Min_eqI) auto
  then show ?thesis by simp
qed

lemma fst_mono_lex: "mono (fst :: nat \<times> real \<Rightarrow> nat)"
  by (rule monoI) (auto simp: less_eq_prod_def)

text \<open>
  What the cell computes on every row with an entry: the lowest topic id that occurs in the
  row, whatever the probabilities are.
\<close>

lemma assigned_topic_lowest_id:
  assumes "row \<noteq> []"
  shows "assigned_topic row = Inr (Min (fst ` set row))"
proof -
  obtain x xs where s: "sort row = x # xs"
    using assms by (cases "sort row") (auto dest: arg_cong[where f=length])
  have "sorted (x # xs)" using s sorted_sort[of row] by simp
  then have "x = Min (set (x # xs))" by (rule sorted_head_is_Min)
  also have "set (x # xs) = set row" using s by (metis set_sort)
  finally have x: "x = Min (set row)" .
  have "fst (Min (set row)) = Min (fst ` set row)"
    using assms by (intro mono_Min_commute fst_mono_lex) auto
  then show ?thesis
    using s x by (simp add: assigned_topic_def getitem_def sorted_py_def)
qed

lemma assigned_topic_empty: "assigned_topic [] = Inl IndexError"
  by (simp add: assigned_topic_def getitem_def sorted_py_def)

text \<open>
  On the tie of the specification's example, the row with probability 0.5 for topics 0 and 1,
  the cell and the specification agree on topic 0.
\<close>

lemma assigned_topic_tie_example:
  "assigned_topic [(0, 1 / 2), (1, 1 / 2)] = Inr 0
   \<and> map_option fst (spec_dominant_topic [(0, 1 / 2), (1, 1 / 2)]) = Some 0"
  by (simp add: assigned_topic_def getitem_def sorted_py_def)

text \<open>
  Claim C1: the assignment returns the dominant topic of every document, the argmax over its
  row of the document-topic matrix, ties going to the lowest topic id.
  The cell sorts the (topic id, probability) pairs as tuples, in ascending order of the
  topic id, and takes the id of the first pair. On the row that gives topic 0 the
  probability 0.1 and topic 1 the probability 0.9, it assigns topic 0, and the argmax is
  topic 1.
\<close>

theorem assigned_topic_not_argmax:
  "assigned_topic [(0, 1 / 10), (1, 9 / 10)] = Inr 0
   \<and> assign_topics [[(0, 1 / 10), (1, 9 / 10)]] 1 = Inr [0]
   \<and> map_option fst (spec_dominant_topic [(0, 1 / 10), (1, 9 / 10)]) = Some 1"
  by (simp add: assign_topics_def assigned_topic_def getitem_def sorted_py_def)

section \<open>Properties of the loading cells\<close>

text \<open>Step 1 on its own leaves only rows with an abstract that are not reviews.\<close>

lemma step1_prepare_excludes:
  "r \<in> set (step1_prepare wos_json) \<Longrightarrow> AB r \<noteq> None \<and> \<not> review r"
  by (simp add: step1_prepare_def)

text \<open>The frame that reaches step 3 is the pickle's, whatever step 1 computed.\<close>

lemma frame_at_step3_is_pickle: "frame_at_step3 wos_json wos_pkl = wos_pkl"
  by (simp add: frame_at_step3_def step2_preprocess_def)


section \<open>Properties of the encoder\<close>

lemma token2id_Some: "token2id V t = Some i \<Longrightarrow> i < length V \<and> V ! i = t"
  by (induction V arbitrary: i) (auto split: if_splits)

lemma token2id_None: "token2id V t = None \<longleftrightarrow> t \<notin> set V"
  by (induction V) auto

lemma token2id_first: "token2id V t = Some i \<Longrightarrow> token2id V u = Some i \<Longrightarrow> u = t"
  using token2id_Some by blast

lemma bow_add_ids: "fst ` set (bow_add i bow) = insert i (fst ` set bow)"
  by (induction i bow rule: bow_add.induct) auto

lemma bow_add_distinct: "distinct (map fst bow) \<Longrightarrow> distinct (map fst (bow_add i bow))"
proof (induction i bow rule: bow_add.induct)
  case (1 i) then show ?case by simp
next
  case (2 i j c rest)
  then show ?case using bow_add_ids[of i rest] by (auto simp: image_iff)
qed

lemma bow_add_count:
  "bow_count (bow_add i bow) j = (if i = j then Suc (bow_count bow j) else bow_count bow j)"
  by (induction i bow rule: bow_add.induct) (auto simp: bow_count_def)

lemma bow_add_positive:
  "\<forall>p \<in> set bow. 1 \<le> snd p \<Longrightarrow> \<forall>p \<in> set (bow_add i bow). 1 \<le> snd p"
  by (induction i bow rule: bow_add.induct) auto

lemma token2id_in: "token2id V t = Some i \<Longrightarrow> t \<in> set V"
  using token2id_None[of V t] by auto

lemma count_tokens_ids:
  "fst ` set (count_tokens V bow doc) = fst ` set bow \<union> {i. \<exists>t \<in> set doc. token2id V t = Some i}"
  by (induction V bow doc rule: count_tokens.induct) (auto simp: bow_add_ids split: option.splits)

lemma count_tokens_distinct:
  "distinct (map fst bow) \<Longrightarrow> distinct (map fst (count_tokens V bow doc))"
  by (induction V bow doc rule: count_tokens.induct) (auto simp: bow_add_distinct split: option.splits)

lemma count_tokens_positive:
  "\<forall>p \<in> set bow. 1 \<le> snd p \<Longrightarrow> \<forall>p \<in> set (count_tokens V bow doc). 1 \<le> snd p"
proof (induction doc arbitrary: bow)
  case Nil
  then show ?case by simp
next
  case (Cons t ts)
  show ?case
  proof (cases "token2id V t")
    case None
    then show ?thesis using Cons.IH[OF Cons.prems] by simp
  next
    case (Some i)
    then show ?thesis using Cons.IH[OF bow_add_positive[OF Cons.prems, of i]] by simp
  qed
qed

lemma count_tokens_count:
  "bow_count (count_tokens V bow doc) j =
     bow_count bow j + length (filter (\<lambda>t. token2id V t = Some j) doc)"
  by (induction V bow doc rule: count_tokens.induct) (auto simp: bow_add_count split: option.splits)

lemma count_tokens_dropped:
  "count_tokens V bow (filter (\<lambda>t. t \<in> set V) doc) = count_tokens V bow doc"
  by (induction doc arbitrary: bow) (auto simp: token2id_None split: option.splits dest: token2id_in)


lemma count_tokens_disjoint: "set doc \<inter> set V = {} \<Longrightarrow> count_tokens V bow doc = bow"
  by (induction doc arbitrary: bow) (auto split: option.splits dest: token2id_in)

lemma doc2bow_entry:
  assumes "(i, c) \<in> set (doc2bow V doc)"
  shows "i < length V \<and> V ! i \<in> set doc \<and> c = count_list doc (V ! i) \<and> 1 \<le> c"
proof -
  have "i \<in> fst ` set (doc2bow V doc)" using assms by force
  then obtain t where t: "t \<in> set doc" "token2id V t = Some i"
    by (auto simp: doc2bow_def count_tokens_ids)
  then have it: "i < length V" "V ! i = t" using token2id_Some by auto
  have same: "\<And>u. token2id V u = Some i \<longleftrightarrow> u = t"
    using t(2) token2id_Some by blast
  have "distinct (map fst (doc2bow V doc))"
    by (simp add: doc2bow_def count_tokens_distinct)
  then have "map_of (doc2bow V doc) i = Some c" using assms by simp
  then have "c = bow_count (doc2bow V doc) i" by (simp add: bow_count_def)
  also have "\<dots> = length (filter (\<lambda>u. token2id V u = Some i) doc)"
    using count_tokens_count[of V "[]" doc i] by (simp add: doc2bow_def bow_count_def)
  also have "\<dots> = count_list doc t"
  proof -
    have "(\<lambda>u. token2id V u = Some i) = (\<lambda>u. t = u)" using same by auto
    then show ?thesis by (simp add: count_list_eq_length_filter)
  qed
  finally have c: "c = count_list doc (V ! i)" using it by simp
  have "\<forall>p \<in> set (doc2bow V doc). 1 \<le> snd p"
    unfolding doc2bow_def by (rule count_tokens_positive) simp
  then have "1 \<le> c" using assms by force
  with it t c show ?thesis by simp
qed

text \<open>
  The scenario of the specification: with the vocabulary a, b, c, the first of the documents
  [a, b, a], [b, c], [a, c, c] has the counts a: 2, b: 1.
\<close>

lemma corpus_of_scenario:
  "corpus_of [''a'', ''b'', ''c''] [[''a'', ''b'', ''a''], [''b'', ''c''], [''a'', ''c'', ''c'']]
   = [[(0, 2), (1, 1)], [(1, 1), (2, 1)], [(0, 1), (2, 2)]]"
  by (simp add: corpus_of_def doc2bow_def)

text \<open>
  Claim C7: the encoded corpus holds no token id outside the range of the vocabulary, and a
  token absent from the vocabulary is absent from every encoded document.
  Removing from every document the tokens that are not in the vocabulary leaves the
  encoded corpus unchanged; and every pair (id, count) of an encoded document has an id
  below the size of the vocabulary, which is the id of a token of that document, with the
  number of its occurrences there as count.
\<close>

theorem corpus_ids_within_vocabulary:
  "corpus_of V (map (filter (\<lambda>t. t \<in> set V)) docs) = corpus_of V docs
   \<and> (\<forall>k < length docs. \<forall>(i, c) \<in> set (corpus_of V docs ! k).
         i < length V \<and> V ! i \<in> set (docs ! k) \<and> c = count_list (docs ! k) (V ! i))"
proof (intro conjI allI impI)
  show "corpus_of V (map (filter (\<lambda>t. t \<in> set V)) docs) = corpus_of V docs"
    by (simp add: corpus_of_def doc2bow_def count_tokens_dropped)
next
  fix k assume "k < length docs"
  then have "corpus_of V docs ! k = doc2bow V (docs ! k)" by (simp add: corpus_of_def)
  then show "\<forall>(i, c) \<in> set (corpus_of V docs ! k).
         i < length V \<and> V ! i \<in> set (docs ! k) \<and> c = count_list (docs ! k) (V ! i)"
    using doc2bow_entry[of _ _ V "docs ! k"] by auto
qed

theorem corpus_ids_within_vocabulary_witness:
  "corpus_of [''it'', ''green''] [[''green'', ''cloud'', ''green'']] = [[(1, 2)]]
   \<and> (0::nat) < length [[''green'', ''cloud'', ''green'']]
   \<and> (1, 2) \<in> set (corpus_of [''it'', ''green''] [[''green'', ''cloud'', ''green'']] ! 0)
   \<and> (1::nat) < length [''it'', ''green'']
   \<and> corpus_of [''it'', ''green''] (map (filter (\<lambda>t. t \<in> set [''it'', ''green'']))
        [[''green'', ''cloud'', ''green'']]) = [[(1, 2)]]"
  using corpus_ids_within_vocabulary[of "[''it'', ''green'']" "[[''green'', ''cloud'', ''green'']]"]
  by (simp add: corpus_of_def doc2bow_def)

text \<open>
  Claim C8: encoding gives one sparse vector per document, in the order of the documents,
  and a document with no token in the vocabulary stays in the corpus, at its index, as the
  empty vector.
\<close>

theorem corpus_one_vector_per_document:
  "length (corpus_of V docs) = length docs
   \<and> (\<forall>k < length docs. corpus_of V docs ! k = doc2bow V (docs ! k))
   \<and> (\<forall>k < length docs. set (docs ! k) \<inter> set V = {} \<longrightarrow> corpus_of V docs ! k = [])"
  by (simp add: corpus_of_def doc2bow_def count_tokens_disjoint)

theorem corpus_one_vector_per_document_witness:
  "length (corpus_of [''it'', ''green''] [[''green''], [''cloud''], [''it'']]) = 3
   \<and> (1::nat) < length [[''green''], [''cloud''], [''it'']]
   \<and> set ([[''green''], [''cloud''], [''it'']] ! 1) \<inter> set [''it'', ''green''] = {}
   \<and> corpus_of [''it'', ''green''] [[''green''], [''cloud''], [''it'']] ! 1 = []
   \<and> corpus_of [''it'', ''green''] [[''green''], [''cloud''], [''it'']] = [[(1, 1)], [], [(0, 1)]]"
  using corpus_one_vector_per_document[of "[''it'', ''green'']" "[[''green''], [''cloud''], [''it'']]"]
  by (simp add: corpus_of_def doc2bow_def)

end
